theory Spec2Isabelle
  imports Complex_Main "HOL-Library.Char_ord" "HOL-Library.List_Lexorder"
begin

section \<open>Data model\<close>

text \<open>
  The two scripts \<^verbatim>\<open>analyze_mola_labels.py\<close> and \<^verbatim>\<open>check_jezero_coverage.py\<close> read
  PDS label files and report coverage, longitude gaps and overlaps of the tiles.
  The embedding starts from the parsed records (the dictionaries built by
  \<^verbatim>\<open>extract_key_info\<close>) and models what is computed from them.

  Python floats are modelled as \<^typ>\<open>real\<close>: comparisons, \<^verbatim>\<open>max\<close>, \<^verbatim>\<open>min\<close>, \<^verbatim>\<open>abs\<close>,
  subtraction and multiplication are the exact ones, rounding is not modelled.
  A field that is \<^verbatim>\<open>None\<close> is \<^term>\<open>None\<close>. Every exception the analysis can raise is a
  value of \<open>py_error\<close>, and a function that can raise returns \<open>py_error + 'a\<close>.

  The dictionary of \<^verbatim>\<open>extract_key_info\<close> also has the keys \<^verbatim>\<open>resolution\<close>, \<^verbatim>\<open>lines\<close> and
  \<^verbatim>\<open>samples\<close>; nothing reads them after parsing, so the record leaves them out. The key
  \<^verbatim>\<open>region\<close> is set on every path of \<^verbatim>\<open>extract_key_info\<close>, so it is a plain string.
\<close>

datatype py_error = ValueError | TypeError | IndexError

record file_info =
  filename :: string
  lat_min :: "real option"
  lat_max :: "real option"
  lon_min :: "real option"
  lon_max :: "real option"
  pixels_per_degree :: "int option"
  region :: string

text \<open>
  \<^verbatim>\<open>self.datasets\<close> is a \<^verbatim>\<open>defaultdict(list)\<close>; Python dictionaries iterate in insertion
  order, so it is an association list with distinct keys in insertion order.
\<close>

type_synonym datasets = "(string \<times> file_info list) list"

section \<open>Strings\<close>

text \<open>\<^verbatim>\<open>sub in s\<close> on strings: \<^verbatim>\<open>sub\<close> occurs in \<^verbatim>\<open>s\<close> as a contiguous substring.\<close>

fun py_in :: "string \<Rightarrow> string \<Rightarrow> bool" where
  "py_in sub [] = (sub = [])"
| "py_in sub (c # cs) = (take (length sub) (c # cs) = sub \<or> py_in sub cs)"

text \<open>\<^verbatim>\<open>str(n)\<close> for an integer: decimal digits, with a leading minus sign when negative.\<close>

definition digit_char :: "nat \<Rightarrow> char" where
  "digit_char d = ''0123456789'' ! d"

fun str_nat :: "nat \<Rightarrow> string" where
  "str_nat n = (if n < 10 then [digit_char n] else str_nat (n div 10) @ [digit_char (n mod 10)])"

declare str_nat.simps [simp del]

definition str_int :: "int \<Rightarrow> string" where
  "str_int i = (if i < 0 then CHR ''-'' # str_nat (nat (- i)) else str_nat (nat i))"

text \<open>
  \<^verbatim>\<open>int(s)\<close> on a string: an optional sign and at least one decimal digit, anything else is
  a \<^verbatim>\<open>ValueError\<close>. (Python also accepts surrounding white space and underscores between
  digits; the strings parsed here are first words of resolution keys, which have neither.)
\<close>

definition digit_val :: "char \<Rightarrow> nat option" where
  "digit_val c = (if CHR ''0'' \<le> c \<and> c \<le> CHR ''9'' then Some (of_char c - 48) else None)"

fun parse_digits :: "nat \<Rightarrow> string \<Rightarrow> nat option" where
  "parse_digits acc [] = Some acc"
| "parse_digits acc (c # cs) =
     (case digit_val c of None \<Rightarrow> None | Some d \<Rightarrow> parse_digits (10 * acc + d) cs)"

definition py_int :: "string \<Rightarrow> py_error + int" where
  "py_int s =
     (case s of
        [] \<Rightarrow> Inl ValueError
      | c # cs \<Rightarrow>
          if c = CHR ''-'' \<or> c = CHR ''+'' then
            (if cs = [] then Inl ValueError
             else case parse_digits 0 cs of
                    None \<Rightarrow> Inl ValueError
                  | Some n \<Rightarrow> Inr (if c = CHR ''-'' then - int n else int n))
          else (case parse_digits 0 s of None \<Rightarrow> Inl ValueError | Some n \<Rightarrow> Inr (int n)))"

text \<open>
  \<^verbatim>\<open>x.split()[0]\<close>: the first white-space separated word; an \<^verbatim>\<open>IndexError\<close> when there is
  none. Resolution keys contain no white space other than the blank.
\<close>

definition first_word :: "string \<Rightarrow> py_error + string" where
  "first_word s =
     (let t = dropWhile (\<lambda>c. c = CHR '' '') s
      in if t = [] then Inl IndexError else Inr (takeWhile (\<lambda>c. c \<noteq> CHR '' '') t))"

section \<open>Sorting\<close>

text \<open>
  \<^verbatim>\<open>sorted(xs, key=k)\<close> is a stable sort, as \<^const>\<open>sort_key\<close> is. With \<^verbatim>\<open>reverse=True\<close> Python
  reverses the list, sorts it stably in ascending order and reverses the result, so that
  elements with equal keys keep their order.
\<close>

definition sorted_reverse :: "('a \<Rightarrow> 'k::linorder) \<Rightarrow> 'a list \<Rightarrow> 'a list" where
  "sorted_reverse key xs = rev (sort_key key (rev xs))"

text \<open>
  The key function of a sort runs on every element before any comparison; when it raises
  on one of them, the sort raises. \<open>keyed\<close> pairs every element with its key.
\<close>

fun keyed :: "('a \<Rightarrow> py_error + 'k) \<Rightarrow> 'a list \<Rightarrow> py_error + ('k \<times> 'a) list" where
  "keyed key [] = Inr []"
| "keyed key (x # xs) =
     (case key x of
        Inl e \<Rightarrow> Inl e
      | Inr k \<Rightarrow> (case keyed key xs of Inl e \<Rightarrow> Inl e | Inr ks \<Rightarrow> Inr ((k, x) # ks)))"

section \<open>Grouping by resolution: \<^verbatim>\<open>analyze_all_labels\<close>\<close>

text \<open>\<^verbatim>\<open>d[k].append(v)\<close> on a \<^verbatim>\<open>defaultdict(list)\<close>; a new key goes to the end.\<close>

fun dd_append :: "'k \<Rightarrow> 'v \<Rightarrow> ('k \<times> 'v list) list \<Rightarrow> ('k \<times> 'v list) list" where
  "dd_append k v [] = [(k, [v])]"
| "dd_append k v ((k', vs) # d) =
     (if k = k' then (k', vs @ [v]) # d else (k', vs) # dd_append k v d)"

text \<open>\<^verbatim>\<open>f"{info['pixels_per_degree']} pixels/degree"\<close>; \<^verbatim>\<open>None\<close> is formatted as \<^verbatim>\<open>None\<close>.\<close>

definition resolution_key :: "file_info \<Rightarrow> string" where
  "resolution_key info =
     (case pixels_per_degree info of None \<Rightarrow> ''None'' | Some n \<Rightarrow> str_int n) @ '' pixels/degree''"

definition analyze_all_labels :: "file_info list \<Rightarrow> datasets" where
  "analyze_all_labels infos = foldl (\<lambda>d info. dd_append (resolution_key info) info d) [] infos"

text \<open>The sort key of both resolution sorts: \<^verbatim>\<open>int(x.split()[0])\<close>.\<close>

definition resolution_int :: "string \<Rightarrow> py_error + int" where
  "resolution_int k = (case first_word k of Inl e \<Rightarrow> Inl e | Inr w \<Rightarrow> py_int w)"

section \<open>Coverage per region: the first part of \<^verbatim>\<open>print_summary\<close>\<close>

definition region_groups :: "string list" where
  "region_groups = [''Equatorial'', ''Mid-North'', ''Mid-South'', ''Near-Polar North'',
     ''Near-Polar South'', ''North Polar'', ''South Polar'']"

text \<open>
  \<^verbatim>\<open>abs(hi - lo) if (hi and lo) else 0\<close>: the test is Python truthiness, so a bound that is
  \<^verbatim>\<open>None\<close> and a bound that is \<^verbatim>\<open>0.0\<close> both select the \<^verbatim>\<open>else\<close> branch.
\<close>

definition truthy :: "real option \<Rightarrow> bool" where
  "truthy v = (case v of None \<Rightarrow> False | Some x \<Rightarrow> x \<noteq> 0)"

definition range_of :: "real option \<Rightarrow> real option \<Rightarrow> real" where
  "range_of hi lo =
     (if truthy hi \<and> truthy lo
      then (case (hi, lo) of (Some h, Some l) \<Rightarrow> \<bar>h - l\<bar> | _ \<Rightarrow> 0)
      else 0)"

definition coverage :: "file_info \<Rightarrow> real" where
  "coverage file_info =
     (let lat_range = range_of (lat_max file_info) (lat_min file_info);
          lon_range = range_of (lon_max file_info) (lon_min file_info)
      in lat_range * lon_range)"

record region_summary =
  rs_region :: string
  rs_listing :: "file_info list"
  rs_total_coverage :: real
  rs_percent :: real

definition region_files :: "string \<Rightarrow> file_info list \<Rightarrow> file_info list" where
  "region_files region_group files = filter (\<lambda>f. py_in region_group (region f)) files"

text \<open>
  The loop over the files of one region group, sorted by file name: every file is listed
  (\<open>rs_listing\<close>, the lines printed per file) and its coverage is added to the total.
\<close>

definition summarize_region :: "string \<Rightarrow> file_info list \<Rightarrow> region_summary" where
  "summarize_region region_group rfiles =
     (let listing = sort_key filename rfiles;
          total_coverage = foldl (\<lambda>t file_info. t + coverage file_info) 0 listing
      in \<lparr> rs_region = region_group, rs_listing = listing,
           rs_total_coverage = total_coverage,
           rs_percent = (total_coverage / 41252.96) * 100 \<rparr>)"

fun summarize_regions :: "string list \<Rightarrow> file_info list \<Rightarrow> region_summary list" where
  "summarize_regions [] files = []"
| "summarize_regions (region_group # gs) files =
     (let rfiles = region_files region_group files
      in if rfiles \<noteq> [] then summarize_region region_group rfiles # summarize_regions gs files
         else summarize_regions gs files)"

section \<open>Longitude gaps: \<^verbatim>\<open>_analyze_coverage_gaps\<close>\<close>

text \<open>
  The search for a south polar file: both loops stop at the first hit. The test is
  \<^verbatim>\<open>'South Polar' in region or ('Near-Polar South' in region and lat_min <= -75)\<close>; the
  key \<^verbatim>\<open>lat_min\<close> is always present, so \<^verbatim>\<open>get('lat_min', 0)\<close> is its value, and comparing
  \<^verbatim>\<open>None\<close> with a number raises \<^verbatim>\<open>TypeError\<close>.
\<close>

fun has_south_polar_in :: "file_info list \<Rightarrow> py_error + bool" where
  "has_south_polar_in [] = Inr False"
| "has_south_polar_in (file_info # rest) =
     (if py_in ''South Polar'' (region file_info) then Inr True
      else if py_in ''Near-Polar South'' (region file_info) then
        (case lat_min file_info of
           None \<Rightarrow> Inl TypeError
         | Some v \<Rightarrow> if v \<le> - 75 then Inr True else has_south_polar_in rest)
      else has_south_polar_in rest)"

fun has_south_polar :: "datasets \<Rightarrow> py_error + bool" where
  "has_south_polar [] = Inr False"
| "has_south_polar ((resolution, dataset) # rest) =
     (case has_south_polar_in dataset of
        Inl e \<Rightarrow> Inl e
      | Inr found \<Rightarrow> if found then Inr True else has_south_polar rest)"

text \<open>The sort key \<^verbatim>\<open>x.get('lon_min', 0) or 0\<close>.\<close>

definition lon_key :: "file_info \<Rightarrow> real" where
  "lon_key x = (case lon_min x of None \<Rightarrow> 0 | Some v \<Rightarrow> if v \<noteq> 0 then v else 0)"

text \<open>The intervals of the files that have both longitude bounds, in the order of the files.\<close>

fun longitude_coverage :: "file_info list \<Rightarrow> (real \<times> real) list" where
  "longitude_coverage [] = []"
| "longitude_coverage (file_info # rest) =
     (case (lon_min file_info, lon_max file_info) of
        (Some lo, Some hi) \<Rightarrow> (lo, hi) # longitude_coverage rest
      | _ \<Rightarrow> longitude_coverage rest)"

text \<open>
  The walk \<^verbatim>\<open>for i in range(1, len(longitude_coverage))\<close>: \<open>prev_max\<close> is the upper bound
  of the interval before, \<open>gaps\<close> the list built so far.
\<close>

fun gap_walk :: "real \<Rightarrow> (real \<times> real) list \<Rightarrow> (real \<times> real) list \<Rightarrow> (real \<times> real) list" where
  "gap_walk prev_max [] gaps = gaps"
| "gap_walk prev_max ((current_min, current_max) # rest) gaps =
     gap_walk current_max rest
       (if current_min - prev_max > 1.0 then gaps @ [(prev_max, current_min)] else gaps)"

text \<open>The gaps of a non-empty interval list: the walk, then the test at 360/0 degrees.\<close>

definition longitude_gaps :: "(real \<times> real) list \<Rightarrow> (real \<times> real) list" where
  "longitude_gaps cov =
     (case cov of
        [] \<Rightarrow> []
      | first # rest \<Rightarrow>
          (let gaps = gap_walk (snd first) rest []
           in if snd (last cov) < 359.0 \<and> fst first > 1.0
              then gaps @ [(snd (last cov), fst first)] else gaps))"

text \<open>The gaps found for the files of one region of one resolution (the list printed).\<close>

definition region_gaps :: "file_info list \<Rightarrow> (real \<times> real) list" where
  "region_gaps files =
     (let files_sorted = sort_key lon_key files
      in if length files_sorted > 1 then
           (let cov = longitude_coverage files_sorted
            in if cov \<noteq> [] then longitude_gaps cov else [])
         else [])"

text \<open>
  \<^verbatim>\<open>regions[file_info.get('region', 'Unknown')].append(file_info)\<close>, then the loop over the
  regions: polar regions are skipped, and a line is printed when the gap list is not
  empty.
\<close>

definition group_by_region :: "file_info list \<Rightarrow> (string \<times> file_info list) list" where
  "group_by_region dataset = foldl (\<lambda>regions file_info. dd_append (region file_info) file_info regions) [] dataset"

fun gaps_of_regions :: "string \<Rightarrow> (string \<times> file_info list) list \<Rightarrow> (string \<times> string \<times> (real \<times> real) list) list" where
  "gaps_of_regions resolution [] = []"
| "gaps_of_regions resolution ((rg, files) # rest) =
     (if py_in ''Polar'' rg then gaps_of_regions resolution rest
      else (let gaps = region_gaps files
            in if gaps \<noteq> [] then (resolution, rg, gaps) # gaps_of_regions resolution rest
               else gaps_of_regions resolution rest))"

record gap_report =
  south_polar_warning :: bool
  longitude_gap_lines :: "(string \<times> string \<times> (real \<times> real) list) list"

definition analyze_coverage_gaps :: "datasets \<Rightarrow> py_error + gap_report" where
  "analyze_coverage_gaps ds =
     (case has_south_polar ds of
        Inl e \<Rightarrow> Inl e
      | Inr found \<Rightarrow>
          Inr \<lparr> south_polar_warning = \<not> found,
                longitude_gap_lines =
                  concat (map (\<lambda>(resolution, dataset). gaps_of_regions resolution (group_by_region dataset)) ds) \<rparr>)"

section \<open>Overlaps between resolutions: \<^verbatim>\<open>_analyze_resolution_overlaps\<close>\<close>

text \<open>
  The four bounds of a file, \<^term>\<open>None\<close> when \<^verbatim>\<open>None in [lat_min, lat_max, lon_min, lon_max]\<close>
  (the file is then skipped). The tuple is (lat_min, lat_max, lon_min, lon_max).
\<close>

definition bounds :: "file_info \<Rightarrow> (real \<times> real \<times> real \<times> real) option" where
  "bounds f =
     (case (lat_min f, lat_max f, lon_min f, lon_max f) of
        (Some a, Some b, Some c, Some d) \<Rightarrow> Some (a, b, c, d)
      | _ \<Rightarrow> None)"

text \<open>One entry of the list \<^verbatim>\<open>overlaps\<close>; the fields are the keys of the dictionary.\<close>

record overlap =
  ov_file :: string
  ov_region :: string
  ov_area :: real
  ov_lat_range :: "real \<times> real"
  ov_lon_range :: "real \<times> real"

text \<open>The loop over the low-resolution files for one high-resolution file with bounds.\<close>

fun low_loop :: "real \<times> real \<times> real \<times> real \<Rightarrow> file_info list \<Rightarrow> overlap list \<Rightarrow> overlap list" where
  "low_loop h [] overlaps = overlaps"
| "low_loop (high_lat_min, high_lat_max, high_lon_min, high_lon_max) (low_file # rest) overlaps =
     (case bounds low_file of
        None \<Rightarrow> low_loop (high_lat_min, high_lat_max, high_lon_min, high_lon_max) rest overlaps
      | Some (low_lat_min, low_lat_max, low_lon_min, low_lon_max) \<Rightarrow>
          (let lat_overlap = (high_lat_min \<le> low_lat_max \<and> high_lat_max \<ge> low_lat_min);
               lon_overlap = (high_lon_min \<le> low_lon_max \<and> high_lon_max \<ge> low_lon_min)
           in if lat_overlap \<and> lon_overlap then
                (let lat_overlap_min = max high_lat_min low_lat_min;
                     lat_overlap_max = min high_lat_max low_lat_max;
                     lon_overlap_min = max high_lon_min low_lon_min;
                     lon_overlap_max = min high_lon_max low_lon_max;
                     overlap_area = (lat_overlap_max - lat_overlap_min) * (lon_overlap_max - lon_overlap_min)
                 in low_loop (high_lat_min, high_lat_max, high_lon_min, high_lon_max) rest
                      (overlaps @ [\<lparr> ov_file = filename low_file, ov_region = region low_file,
                                     ov_area = overlap_area,
                                     ov_lat_range = (lat_overlap_min, lat_overlap_max),
                                     ov_lon_range = (lon_overlap_min, lon_overlap_max) \<rparr>]))
              else low_loop (high_lat_min, high_lat_max, high_lon_min, high_lon_max) rest overlaps))"

text \<open>
  What is printed for one high-resolution file: nothing when it lacks a bound or overlaps
  no file, else its name, its region and its overlaps sorted by area, largest first.
\<close>

definition high_file_report :: "file_info \<Rightarrow> file_info list \<Rightarrow> (string \<times> string \<times> overlap list) option" where
  "high_file_report high_file lows =
     (case bounds high_file of
        None \<Rightarrow> None
      | Some h \<Rightarrow>
          (let overlaps = low_loop h lows []
           in if overlaps \<noteq> []
              then Some (filename high_file, region high_file, sorted_reverse ov_area overlaps)
              else None))"

fun compare_files :: "file_info list \<Rightarrow> file_info list \<Rightarrow> (string \<times> string \<times> overlap list) list" where
  "compare_files [] lows = []"
| "compare_files (high_file # rest) lows =
     (case high_file_report high_file lows of
        None \<Rightarrow> compare_files rest lows
      | Some r \<Rightarrow> r # compare_files rest lows)"

text \<open>
  \<^verbatim>\<open>self.datasets[k]\<close>; reading a missing key of a \<^verbatim>\<open>defaultdict(list)\<close> gives the empty list.
\<close>

definition dataset_of :: "datasets \<Rightarrow> string \<Rightarrow> file_info list" where
  "dataset_of ds k = (case map_of ds k of None \<Rightarrow> [] | Some files \<Rightarrow> files)"

text \<open>The comparisons of consecutive resolutions, \<^verbatim>\<open>for i in range(len(resolutions)-1)\<close>.\<close>

fun compare_consecutive :: "datasets \<Rightarrow> string list \<Rightarrow> (string \<times> string \<times> (string \<times> string \<times> overlap list) list) list" where
  "compare_consecutive ds (high_res # low_res # rest) =
     (high_res, low_res, compare_files (dataset_of ds high_res) (dataset_of ds low_res))
       # compare_consecutive ds (low_res # rest)"
| "compare_consecutive ds rs = []"

definition analyze_resolution_overlaps :: "datasets \<Rightarrow> py_error + (string \<times> string \<times> (string \<times> string \<times> overlap list) list) list" where
  "analyze_resolution_overlaps ds =
     (if length ds > 1 then
        (case keyed resolution_int (map fst ds) of
           Inl e \<Rightarrow> Inl e
         | Inr ks \<Rightarrow> Inr (compare_consecutive ds (map snd (sorted_reverse fst ks))))
      else Inr [])"

section \<open>The whole report: \<^verbatim>\<open>print_summary\<close>\<close>

record summary_report =
  resolution_summaries :: "(string \<times> nat \<times> region_summary list) list"
  coverage_gaps :: gap_report
  resolution_overlaps :: "(string \<times> string \<times> (string \<times> string \<times> overlap list) list) list"

text \<open>
  The resolutions are sorted by \<^verbatim>\<open>int(x[0].split()[0])\<close>, largest first, before anything
  is printed for them; then come the gap analysis and the overlap analysis. An exception
  of any step ends the run.
\<close>

definition print_summary :: "datasets \<Rightarrow> py_error + summary_report" where
  "print_summary ds =
     (case keyed (\<lambda>x. resolution_int (fst x)) ds of
        Inl e \<Rightarrow> Inl e
      | Inr ks \<Rightarrow>
          (let summaries = map (\<lambda>(k, resolution, files).
                               (resolution, length files, summarize_regions region_groups files))
                             (sorted_reverse fst ks)
           in case analyze_coverage_gaps ds of
                Inl e \<Rightarrow> Inl e
              | Inr gaps \<Rightarrow>
                  (case analyze_resolution_overlaps ds of
                     Inl e \<Rightarrow> Inl e
                   | Inr overlaps \<Rightarrow>
                       Inr \<lparr> resolution_summaries = summaries, coverage_gaps = gaps,
                             resolution_overlaps = overlaps \<rparr>)))"

text \<open>\<^verbatim>\<open>main\<close>: group the parsed records, then print the summary.\<close>

definition run_analysis :: "file_info list \<Rightarrow> py_error + summary_report" where
  "run_analysis infos = print_summary (analyze_all_labels infos)"

section \<open>\<^verbatim>\<open>check_jezero_coverage.py\<close>\<close>

text \<open>
  The four bounds as the scan of one label file leaves them, \<^term>\<open>None\<close> for a bound that
  no line set or whose value \<^verbatim>\<open>float\<close> refused. The model starts after the scan.
\<close>

record label_bounds =
  label_file :: string
  min_lat :: "real option"
  max_lat :: "real option"
  min_lon :: "real option"
  max_lon :: "real option"

definition jezero_lat :: real where
  "jezero_lat = 18.4446"

definition jezero_lon :: real where
  "jezero_lon = 77.4509"

text \<open>\<^verbatim>\<open>s.replace(".lbl", ".img")\<close>: every occurrence, from the left, without overlaps.\<close>

fun replace_lbl :: "string \<Rightarrow> string" where
  "replace_lbl [] = []"
| "replace_lbl (c # cs) =
     (if take 4 (c # cs) = ''.lbl'' then ''.img'' @ replace_lbl (drop 3 cs)
      else c # replace_lbl cs)"

record covering_file =
  cf_label_file :: string
  cf_img_file :: string
  cf_img_exists :: bool
  cf_coverage :: "real \<times> real \<times> real \<times> real"

text \<open>
  The loop over the label files with its two lists; \<open>path_exists\<close> stands for
  \<^verbatim>\<open>os.path.exists\<close>. Each entry of \<^verbatim>\<open>all_files_info\<close> holds the file and its coverage
  text, here the four bounds that the text is formatted from.
\<close>

fun check_files :: "(string \<Rightarrow> bool) \<Rightarrow> label_bounds list \<Rightarrow> label_bounds list \<Rightarrow> covering_file list
    \<Rightarrow> label_bounds list \<times> covering_file list" where
  "check_files path_exists [] all_files_info files_covering_jezero = (all_files_info, files_covering_jezero)"
| "check_files path_exists (lbl # rest) all_files_info files_covering_jezero =
     check_files path_exists rest (all_files_info @ [lbl])
       (case (min_lat lbl, max_lat lbl, min_lon lbl, max_lon lbl) of
          (Some mnlat, Some mxlat, Some mnlon, Some mxlon) \<Rightarrow>
            if (mnlat \<le> jezero_lat \<and> jezero_lat \<le> mxlat) \<and> (mnlon \<le> jezero_lon \<and> jezero_lon \<le> mxlon)
            then files_covering_jezero @
                   [\<lparr> cf_label_file = label_file lbl, cf_img_file = replace_lbl (label_file lbl),
                      cf_img_exists = path_exists (replace_lbl (label_file lbl)),
                      cf_coverage = (mnlat, mxlat, mnlon, mxlon) \<rparr>]
            else files_covering_jezero
        | _ \<Rightarrow> files_covering_jezero)"

definition check_coverage :: "(string \<Rightarrow> bool) \<Rightarrow> label_bounds list \<Rightarrow> label_bounds list \<times> covering_file list" where
  "check_coverage path_exists label_files = check_files path_exists label_files [] []"

section \<open>The operations as the specification words them\<close>

text \<open>
  The pairwise walk of \<^verbatim>\<open>detectLongitudeGaps\<close>: for consecutive intervals of the sorted
  list, a gap (current.lon_max, next.lon_min) when next.lon_min - current.lon_max exceeds
  one degree; and the wraparound gap (last.lon_max, first.lon_min) when the last upper
  bound is below 359 and the first lower bound above 1.
\<close>

definition spec_pairwise_gaps :: "(real \<times> real) list \<Rightarrow> (real \<times> real) list" where
  "spec_pairwise_gaps cov =
     map (\<lambda>(current, next). (snd current, fst next))
       (filter (\<lambda>(current, next). fst next - snd current > 1.0) (zip cov (tl cov)))"

definition spec_wraparound_gap :: "(real \<times> real) list \<Rightarrow> (real \<times> real) list" where
  "spec_wraparound_gap cov =
     (if cov \<noteq> [] \<and> snd (last cov) < 359.0 \<and> fst (hd cov) > 1.0
      then [(snd (last cov), fst (hd cov))] else [])"

text \<open>
  \<^verbatim>\<open>detectOverlaps\<close>: two rectangles overlap iff the closed intervals meet in latitude and
  in longitude; the overlap rectangle is [max(lat_min), min(lat_max)] x
  [max(lon_min), min(lon_max)] and the overlap area the product of its edge lengths.
  A rectangle is (lat_min, lat_max, lon_min, lon_max). \<open>spec_overlap_entry\<close> is the
  result for one low-resolution record: nothing when a bound is missing or the rectangles
  do not overlap. \<open>valid_rect\<close> is the invariant of the data model, lat_min \<le> lat_max and
  lon_min \<le> lon_max.
\<close>

fun spec_overlaps :: "real \<times> real \<times> real \<times> real \<Rightarrow> real \<times> real \<times> real \<times> real \<Rightarrow> bool" where
  "spec_overlaps (high_lat_min, high_lat_max, high_lon_min, high_lon_max)
                 (low_lat_min, low_lat_max, low_lon_min, low_lon_max) =
     (high_lat_min \<le> low_lat_max \<and> high_lat_max \<ge> low_lat_min \<and>
      high_lon_min \<le> low_lon_max \<and> high_lon_max \<ge> low_lon_min)"

fun spec_overlap_lat :: "real \<times> real \<times> real \<times> real \<Rightarrow> real \<times> real \<times> real \<times> real \<Rightarrow> real \<times> real" where
  "spec_overlap_lat (high_lat_min, high_lat_max, high_lon_min, high_lon_max)
                    (low_lat_min, low_lat_max, low_lon_min, low_lon_max) =
     (max high_lat_min low_lat_min, min high_lat_max low_lat_max)"

fun spec_overlap_lon :: "real \<times> real \<times> real \<times> real \<Rightarrow> real \<times> real \<times> real \<times> real \<Rightarrow> real \<times> real" where
  "spec_overlap_lon (high_lat_min, high_lat_max, high_lon_min, high_lon_max)
                    (low_lat_min, low_lat_max, low_lon_min, low_lon_max) =
     (max high_lon_min low_lon_min, min high_lon_max low_lon_max)"

definition spec_overlap_area :: "real \<times> real \<times> real \<times> real \<Rightarrow> real \<times> real \<times> real \<times> real \<Rightarrow> real" where
  "spec_overlap_area h l =
     (snd (spec_overlap_lat h l) - fst (spec_overlap_lat h l))
     * (snd (spec_overlap_lon h l) - fst (spec_overlap_lon h l))"

definition spec_overlap_entry :: "real \<times> real \<times> real \<times> real \<Rightarrow> file_info \<Rightarrow> overlap option" where
  "spec_overlap_entry h low =
     (case bounds low of
        None \<Rightarrow> None
      | Some l \<Rightarrow>
          if spec_overlaps h l
          then Some \<lparr> ov_file = filename low, ov_region = region low,
                      ov_area = spec_overlap_area h l,
                      ov_lat_range = spec_overlap_lat h l,
                      ov_lon_range = spec_overlap_lon h l \<rparr>
          else None)"

fun valid_rect :: "real \<times> real \<times> real \<times> real \<Rightarrow> bool" where
  "valid_rect (lat_lo, lat_hi, lon_lo, lon_hi) = (lat_lo \<le> lat_hi \<and> lon_lo \<le> lon_hi)"

definition valid_file :: "file_info \<Rightarrow> bool" where
  "valid_file f = (case bounds f of None \<Rightarrow> True | Some b \<Rightarrow> valid_rect b)"

text \<open>
  What the overlap report of two groups says, as a list of pairs: the name and region of
  the high-resolution file, the name and region of the low-resolution file, and the
  area, latitude range and longitude range printed for the pair. \<open>swap_roles\<close> exchanges
  the two files of a pair.
\<close>

definition reported_pairs :: "(string \<times> string \<times> overlap list) list
    \<Rightarrow> ((string \<times> string) \<times> (string \<times> string) \<times> real \<times> (real \<times> real) \<times> (real \<times> real)) list" where
  "reported_pairs report =
     concat (map (\<lambda>(high_name, high_region, overlaps).
                    map (\<lambda>e. ((high_name, high_region), (ov_file e, ov_region e),
                               ov_area e, ov_lat_range e, ov_lon_range e)) overlaps)
                 report)"

definition swap_roles :: "('a \<times> 'a \<times> 'b) \<Rightarrow> ('a \<times> 'a \<times> 'b)" where
  "swap_roles p = (case p of (high, low, rest) \<Rightarrow> (low, high, rest))"

text \<open>
  \<^verbatim>\<open>computeRegionCoverage\<close>: the sum of |lat_max - lat_min| * |lon_max - lon_min| over the
  member records that have all four bounds; a record missing a bound contributes zero.
\<close>

definition spec_total_coverage :: "file_info list \<Rightarrow> real" where
  "spec_total_coverage members =
     sum_list (map (\<lambda>f. case bounds f of
                          None \<Rightarrow> 0
                        | Some (lat_lo, lat_hi, lon_lo, lon_hi) \<Rightarrow> \<bar>lat_hi - lat_lo\<bar> * \<bar>lon_hi - lon_lo\<bar>)
                   members)"

section \<open>Longitude gaps: lemmas\<close>

lemma gap_walk_char:
  "gap_walk p rest acc = acc @ spec_pairwise_gaps ((x, p) # rest)"
proof (induction rest arbitrary: p acc x)
  case Nil
  then show ?case by (simp add: spec_pairwise_gaps_def)
next
  case (Cons iv rest)
  obtain lo hi where iv: "iv = (lo, hi)" by (cases iv)
  have tail: "spec_pairwise_gaps ((x, p) # (lo, hi) # rest) =
      (if lo - p > 1 then [(p, lo)] else []) @ spec_pairwise_gaps ((lo, hi) # rest)"
    by (simp add: spec_pairwise_gaps_def)
  show ?case
    unfolding iv tail by (simp add: Cons.IH [where x = lo])
qed

lemma lon_key_eq: "lon_key x = (case lon_min x of None \<Rightarrow> 0 | Some v \<Rightarrow> v)"
  by (simp add: lon_key_def split: option.splits)

lemma longitude_coverage_keys:
  "map fst (longitude_coverage files) = map lon_key (filter (\<lambda>f. lon_min f \<noteq> None \<and> lon_max f \<noteq> None) files)"
  by (induction files) (auto simp: lon_key_eq split: option.splits)

lemma longitude_coverage_insort:
  "sorted (map lon_key xs) \<Longrightarrow>
   longitude_coverage (insort_key lon_key f xs) =
     (case (lon_min f, lon_max f) of
        (Some lo, Some hi) \<Rightarrow> insort_key fst (lo, hi) (longitude_coverage xs)
      | _ \<Rightarrow> longitude_coverage xs)"
proof (induction xs)
  case Nil
  then show ?case by (simp split: option.splits)
next
  case (Cons y ys)
  have sorted_ys: "sorted (map lon_key ys)" and above: "\<forall>z \<in> set ys. lon_key y \<le> lon_key z"
    using Cons.prems by auto
  note IH = Cons.IH [OF sorted_ys]
  show ?case
  proof (cases "lon_key f \<le> lon_key y")
    case True
    have "\<forall>k \<in> set (map fst (longitude_coverage (y # ys))). lon_key f \<le> k"
      unfolding longitude_coverage_keys using True above by auto
    then have front: "\<And>lo hi. lon_key f = lo \<Longrightarrow>
        insort_key fst (lo, hi) (longitude_coverage (y # ys)) = (lo, hi) # longitude_coverage (y # ys)"
      by (intro insort_is_Cons) auto
    show ?thesis
      using True front by (auto simp: lon_key_eq split: option.splits)
  next
    case False
    then show ?thesis
      using IH by (auto simp: lon_key_eq split: option.splits)
  qed
qed

lemma longitude_coverage_sort:
  "longitude_coverage (sort_key lon_key files) = sort_key fst (longitude_coverage files)"
proof (induction files)
  case Nil
  then show ?case by simp
next
  case (Cons f files)
  have "sorted (map lon_key (sort_key lon_key files))" by (rule sorted_sort_key)
  then show ?case
    using Cons.IH by (simp add: longitude_coverage_insort split: option.splits)
qed

lemma region_gaps_char:
  "region_gaps files =
     (if 1 < length files \<and> longitude_coverage files \<noteq> []
      then spec_pairwise_gaps (sort_key fst (longitude_coverage files))
           @ spec_wraparound_gap (sort_key fst (longitude_coverage files))
      else [])"
proof (cases "sort_key fst (longitude_coverage files)")
  case Nil
  then have "longitude_coverage files = []"
    by (metis length_sort list.size(3) length_0_conv)
  then show ?thesis
    by (simp add: region_gaps_def longitude_coverage_sort)
next
  case (Cons first rest)
  then have ne: "longitude_coverage files \<noteq> []" by auto
  have walk: "gap_walk (snd first) rest [] = spec_pairwise_gaps (first # rest)"
    using gap_walk_char [of "snd first" rest "[]" "fst first"] by simp
  show ?thesis
    using ne by (simp add: region_gaps_def longitude_coverage_sort Cons longitude_gaps_def walk spec_wraparound_gap_def Let_def)
qed

lemma length_longitude_coverage: "length (longitude_coverage files) \<le> length files"
  by (induction files) (auto split: option.splits)

lemma spec_pairwise_gaps_short: "length cov < 2 \<Longrightarrow> spec_pairwise_gaps cov = []"
  by (cases cov; cases "tl cov") (auto simp: spec_pairwise_gaps_def)

section \<open>Longitude gaps: the claims\<close>

text \<open>
  Claim C4. For the files of one region of one resolution, the gaps reported are, in
  order, the pairs (current.lon_max, next.lon_min) of those consecutive intervals of the
  usable intervals sorted by lon_min for which next.lon_min - current.lon_max exceeds
  1.0, followed by at most one more entry (the wraparound gap). The intervals [0,100] and
  [105,200], in either input order, give the gap list [(100,105)]; the intervals
  [0,100], [100,200], [200,360] give no gap.
\<close>

theorem C4_pairwise_gaps:
  "(\<exists>wrap. length wrap \<le> 1 \<and>
      region_gaps files =
        map (\<lambda>(current, next). (snd current, fst next))
          (filter (\<lambda>(current, next). fst next - snd current > 1.0)
             (zip (sort_key fst (longitude_coverage files)) (tl (sort_key fst (longitude_coverage files)))))
        @ wrap)
   \<and> region_gaps [f1\<lparr>lon_min := Some 0, lon_max := Some 100\<rparr>,
                   f2\<lparr>lon_min := Some 105, lon_max := Some 200\<rparr>] = [(100, 105)]
   \<and> region_gaps [f2\<lparr>lon_min := Some 105, lon_max := Some 200\<rparr>,
                   f1\<lparr>lon_min := Some 0, lon_max := Some 100\<rparr>] = [(100, 105)]
   \<and> region_gaps [f1\<lparr>lon_min := Some 0, lon_max := Some 100\<rparr>,
                   f2\<lparr>lon_min := Some 100, lon_max := Some 200\<rparr>,
                   f3\<lparr>lon_min := Some 200, lon_max := Some 360\<rparr>] = []"
proof -
  let ?cov = "sort_key fst (longitude_coverage files)"
  have general: "\<exists>wrap. length wrap \<le> 1 \<and> region_gaps files = spec_pairwise_gaps ?cov @ wrap"
  proof (cases "1 < length files \<and> longitude_coverage files \<noteq> []")
    case True
    then have "region_gaps files = spec_pairwise_gaps ?cov @ spec_wraparound_gap ?cov"
      by (simp add: region_gaps_char)
    moreover have "length (spec_wraparound_gap ?cov) \<le> 1"
      by (simp add: spec_wraparound_gap_def)
    ultimately show ?thesis by blast
  next
    case False
    then have "length ?cov < 2"
      using length_longitude_coverage [of files] by auto
    then have "spec_pairwise_gaps ?cov = []" by (rule spec_pairwise_gaps_short)
    moreover have "region_gaps files = []"
      by (subst region_gaps_char) (rule if_not_P [OF False])
    ultimately show ?thesis by simp
  qed
  have ex1: "region_gaps [f1\<lparr>lon_min := Some 0, lon_max := Some 100\<rparr>,
                   f2\<lparr>lon_min := Some 105, lon_max := Some 200\<rparr>] = [(100, 105)]"
    by (simp add: region_gaps_def lon_key_eq longitude_gaps_def)
  have ex2: "region_gaps [f2\<lparr>lon_min := Some 105, lon_max := Some 200\<rparr>,
                   f1\<lparr>lon_min := Some 0, lon_max := Some 100\<rparr>] = [(100, 105)]"
    by (simp add: region_gaps_def lon_key_eq longitude_gaps_def)
  have ex3: "region_gaps [f1\<lparr>lon_min := Some 0, lon_max := Some 100\<rparr>,
                   f2\<lparr>lon_min := Some 100, lon_max := Some 200\<rparr>,
                   f3\<lparr>lon_min := Some 200, lon_max := Some 360\<rparr>] = []"
    by (simp add: region_gaps_def lon_key_eq longitude_gaps_def)
  from general ex1 ex2 ex3 show ?thesis
    unfolding spec_pairwise_gaps_def by blast
qed

lemma gap_walk_wide:
  "list_all (\<lambda>(a, b). b - a > 1.0 \<and> a < b) gaps \<Longrightarrow>
   list_all (\<lambda>(a, b). b - a > 1.0 \<and> a < b) (gap_walk prev_max rest gaps)"
  by (induction rest arbitrary: prev_max gaps) auto

text \<open>
  Claim C5. When the gap check of a group runs (the group has more than one file and at
  least one usable interval), the gap list is the pairwise gaps followed by the
  wraparound gap (last.lon_max, first.lon_min) exactly when the last interval of the
  sorted list has lon_max < 359.0 and the first has lon_min > 1.0. The intervals
  [10,200] and [210,350] give the gaps (200,210) and, after it, the wraparound gap
  (350,10).
\<close>

theorem C5_wraparound_gap:
  assumes "1 < length files" and "longitude_coverage files \<noteq> []"
  shows "region_gaps files =
           spec_pairwise_gaps (sort_key fst (longitude_coverage files))
           @ (if snd (last (sort_key fst (longitude_coverage files))) < 359.0
                 \<and> fst (hd (sort_key fst (longitude_coverage files))) > 1.0
              then [(snd (last (sort_key fst (longitude_coverage files))),
                     fst (hd (sort_key fst (longitude_coverage files))))]
              else [])
         \<and> region_gaps [f1\<lparr>lon_min := Some 10, lon_max := Some 200\<rparr>,
                         f2\<lparr>lon_min := Some 210, lon_max := Some 350\<rparr>] = [(200, 210), (350, 10)]"
proof -
  have "sort_key fst (longitude_coverage files) \<noteq> []"
    using assms(2) by (metis length_sort length_0_conv)
  then have general: "region_gaps files =
           spec_pairwise_gaps (sort_key fst (longitude_coverage files))
           @ (if snd (last (sort_key fst (longitude_coverage files))) < 359.0
                 \<and> fst (hd (sort_key fst (longitude_coverage files))) > 1.0
              then [(snd (last (sort_key fst (longitude_coverage files))),
                     fst (hd (sort_key fst (longitude_coverage files))))]
              else [])"
    using assms by (simp add: region_gaps_char spec_wraparound_gap_def)
  have example: "region_gaps [f1\<lparr>lon_min := Some 10, lon_max := Some 200\<rparr>,
                         f2\<lparr>lon_min := Some 210, lon_max := Some 350\<rparr>] = [(200, 210), (350, 10)]"
    by (simp add: region_gaps_def lon_key_eq longitude_gaps_def)
  from general example show ?thesis by simp
qed

theorem C5_wraparound_gap_witness:
  "1 < length [\<lparr> filename = ''megt00n010hb.lbl'', lat_min = Some (- 44), lat_max = Some 44,
                   lon_min = Some 10, lon_max = Some 200, pixels_per_degree = Some 128,
                   region = ''Equatorial'' \<rparr>,
                \<lparr> filename = ''megt00n210hb.lbl'', lat_min = Some (- 44), lat_max = Some 44,
                   lon_min = Some 210, lon_max = Some 350, pixels_per_degree = Some 128,
                   region = ''Equatorial'' \<rparr>]
   \<and> longitude_coverage
        [\<lparr> filename = ''megt00n010hb.lbl'', lat_min = Some (- 44), lat_max = Some 44,
            lon_min = Some 10, lon_max = Some 200, pixels_per_degree = Some 128,
            region = ''Equatorial'' \<rparr>,
         \<lparr> filename = ''megt00n210hb.lbl'', lat_min = Some (- 44), lat_max = Some 44,
            lon_min = Some 210, lon_max = Some 350, pixels_per_degree = Some 128,
            region = ''Equatorial'' \<rparr>] = [(10, 200), (210, 350)]
   \<and> region_gaps
        [\<lparr> filename = ''megt00n010hb.lbl'', lat_min = Some (- 44), lat_max = Some 44,
            lon_min = Some 10, lon_max = Some 200, pixels_per_degree = Some 128,
            region = ''Equatorial'' \<rparr>,
         \<lparr> filename = ''megt00n210hb.lbl'', lat_min = Some (- 44), lat_max = Some 44,
            lon_min = Some 210, lon_max = Some 350, pixels_per_degree = Some 128,
            region = ''Equatorial'' \<rparr>] = [(200, 210), (350, 10)]"
  using C5_wraparound_gap
    [of "[\<lparr> filename = ''megt00n010hb.lbl'', lat_min = Some (- 44), lat_max = Some 44,
            lon_min = Some 10, lon_max = Some 200, pixels_per_degree = Some 128,
            region = ''Equatorial'' \<rparr>,
         \<lparr> filename = ''megt00n210hb.lbl'', lat_min = Some (- 44), lat_max = Some 44,
            lon_min = Some 210, lon_max = Some 350, pixels_per_degree = Some 128,
            region = ''Equatorial'' \<rparr>]"]
  by (simp add: spec_pairwise_gaps_def)

text \<open>
  Claim C6 says that a group with fewer than 2 usable intervals reports no gap at all.
  The source tests \<^verbatim>\<open>len(files_sorted) > 1\<close> on the files of the group, before the
  records without both longitude bounds are filtered out. The two groups below have the
  same single usable interval [10,200]. The group that holds only that file reports no
  gap. The group that also holds a file without \<^verbatim>\<open>lon_max\<close>, a record the filter
  excludes from the gap check, passes the guard, reaches the wraparound test and
  reports the gap (200,10), and the line is printed for the region.
\<close>

theorem C6_unusable_record_changes_gaps:
  "longitude_coverage
      [\<lparr> filename = ''megt00n010hb.lbl'', lat_min = Some (- 44), lat_max = Some 44,
          lon_min = Some 10, lon_max = Some 200, pixels_per_degree = Some 128,
          region = ''Equatorial'' \<rparr>] = [(10, 200)]
   \<and> longitude_coverage
      [\<lparr> filename = ''megt00n010hb.lbl'', lat_min = Some (- 44), lat_max = Some 44,
          lon_min = Some 10, lon_max = Some 200, pixels_per_degree = Some 128,
          region = ''Equatorial'' \<rparr>,
       \<lparr> filename = ''megt00n210hb.lbl'', lat_min = Some (- 44), lat_max = Some 44,
          lon_min = Some 210, lon_max = None, pixels_per_degree = Some 128,
          region = ''Equatorial'' \<rparr>] = [(10, 200)]
   \<and> region_gaps
      [\<lparr> filename = ''megt00n010hb.lbl'', lat_min = Some (- 44), lat_max = Some 44,
          lon_min = Some 10, lon_max = Some 200, pixels_per_degree = Some 128,
          region = ''Equatorial'' \<rparr>] = []
   \<and> region_gaps
      [\<lparr> filename = ''megt00n010hb.lbl'', lat_min = Some (- 44), lat_max = Some 44,
          lon_min = Some 10, lon_max = Some 200, pixels_per_degree = Some 128,
          region = ''Equatorial'' \<rparr>,
       \<lparr> filename = ''megt00n210hb.lbl'', lat_min = Some (- 44), lat_max = Some 44,
          lon_min = Some 210, lon_max = None, pixels_per_degree = Some 128,
          region = ''Equatorial'' \<rparr>] = [(200, 10)]
   \<and> gaps_of_regions ''128 pixels/degree''
        (group_by_region
          [\<lparr> filename = ''megt00n010hb.lbl'', lat_min = Some (- 44), lat_max = Some 44,
          lon_min = Some 10, lon_max = Some 200, pixels_per_degree = Some 128,
          region = ''Equatorial'' \<rparr>,
           \<lparr> filename = ''megt00n210hb.lbl'', lat_min = Some (- 44), lat_max = Some 44,
          lon_min = Some 210, lon_max = None, pixels_per_degree = Some 128,
          region = ''Equatorial'' \<rparr>])
       = [(''128 pixels/degree'', ''Equatorial'', [(200, 10)])]"
  by (simp add: region_gaps_def lon_key_eq longitude_gaps_def group_by_region_def)

text \<open>
  Claim C10. Every gap (a, b) that the pairwise walk records has b - a > 1.0, hence
  a < b, whatever the intervals are. The gap list of a group is such a list of walk gaps
  followed by nothing or by the one wraparound gap (last.lon_max, first.lon_min), which
  is the only entry that can have its first component above its second: the intervals
  [20,180] and [180,340] give the single gap (340,20).
\<close>

theorem C10_pairwise_gap_width:
  "list_all (\<lambda>(a, b). b - a > 1.0 \<and> a < b) (gap_walk prev_max rest [])
   \<and> (\<exists>walk wrap.
         region_gaps files = walk @ wrap
         \<and> list_all (\<lambda>(a, b). b - a > 1.0 \<and> a < b) walk
         \<and> (wrap = [] \<or> wrap = [(snd (last (sort_key fst (longitude_coverage files))),
                                  fst (hd (sort_key fst (longitude_coverage files))))]))
   \<and> region_gaps [f1\<lparr>lon_min := Some 20, lon_max := Some 180\<rparr>,
                   f2\<lparr>lon_min := Some 180, lon_max := Some 340\<rparr>] = [(340, 20)]"
proof -
  let ?wide = "list_all (\<lambda>(a, b). b - a > (1.0::real) \<and> a < b)"
  let ?cov = "sort_key fst (longitude_coverage files)"
  have walk: "?wide (gap_walk p r [])" for p r
    by (rule gap_walk_wide) simp
  have parts: "\<exists>walk wrap. region_gaps files = walk @ wrap \<and> ?wide walk
      \<and> (wrap = [] \<or> wrap = [(snd (last ?cov), fst (hd ?cov))])"
  proof (cases ?cov)
    case Nil
    then have "longitude_coverage files = []"
      by (metis length_sort length_0_conv)
    then have "region_gaps files = [] @ []" by (simp add: region_gaps_char)
    moreover have "?wide []" by simp
    ultimately show ?thesis by blast
  next
    case (Cons first others)
    have "?wide (spec_pairwise_gaps ?cov)"
      using walk [of "snd first" others] gap_walk_char [of "snd first" others "[]" "fst first"] Cons
      by simp
    moreover have "region_gaps files = spec_pairwise_gaps ?cov @ spec_wraparound_gap ?cov
        \<or> region_gaps files = [] @ []"
      by (simp add: region_gaps_char)
    moreover have "spec_wraparound_gap ?cov = [] \<or>
        spec_wraparound_gap ?cov = [(snd (last ?cov), fst (hd ?cov))]"
      by (simp add: spec_wraparound_gap_def)
    moreover have "?wide []" by simp
    ultimately show ?thesis by blast
  qed
  have example: "region_gaps [f1\<lparr>lon_min := Some 20, lon_max := Some 180\<rparr>,
                   f2\<lparr>lon_min := Some 180, lon_max := Some 340\<rparr>] = [(340, 20)]"
    by (simp add: region_gaps_def lon_key_eq longitude_gaps_def)
  from walk parts example show ?thesis by blast
qed

section \<open>Overlaps: lemmas\<close>

lemma low_loop_char:
  "low_loop h lows acc = acc @ List.map_filter (spec_overlap_entry h) lows"
proof (induction lows arbitrary: acc)
  case Nil
  show ?case by (cases h) (simp add: List.map_filter_simps)
next
  case (Cons low lows)
  obtain a b c d where h: "h = (a, b, c, d)" by (cases h)
  show ?case
  proof (cases "bounds low")
    case None
    then show ?thesis
      by (simp add: h Cons.IH [unfolded h] List.map_filter_simps spec_overlap_entry_def)
  next
    case (Some l)
    obtain a' b' c' d' where l: "l = (a', b', c', d')" by (cases l)
    show ?thesis
      by (simp add: h l Some Cons.IH [unfolded h] List.map_filter_simps spec_overlap_entry_def
            spec_overlap_area_def Let_def)
  qed
qed

lemma spec_overlap_area_nonneg:
  "valid_rect h \<Longrightarrow> valid_rect l \<Longrightarrow> spec_overlaps h l \<Longrightarrow> 0 \<le> spec_overlap_area h l"
  by (cases h; cases l) (auto simp: spec_overlap_area_def intro!: mult_nonneg_nonneg)

lemma spec_overlap_entry_area_nonneg:
  "valid_rect h \<Longrightarrow> valid_file low \<Longrightarrow> spec_overlap_entry h low = Some e \<Longrightarrow> 0 \<le> ov_area e"
  by (auto simp: spec_overlap_entry_def valid_file_def spec_overlap_area_nonneg split: option.splits if_splits)

lemma map_filter_area_nonneg:
  "valid_rect h \<Longrightarrow> list_all valid_file lows \<Longrightarrow>
   list_all (\<lambda>e. 0 \<le> ov_area e) (List.map_filter (spec_overlap_entry h) lows)"
proof (induction lows)
  case Nil
  show ?case by (simp add: List.map_filter_simps)
next
  case (Cons low lows)
  then show ?case
    by (cases "spec_overlap_entry h low")
       (auto simp: List.map_filter_simps dest: spec_overlap_entry_area_nonneg)
qed

lemma sorted_reverse_desc: "sorted_wrt (\<lambda>x y. key x \<ge> key y) (sorted_reverse key xs)"
proof -
  have "sorted (map key (sort_key key (rev xs)))" by (rule sorted_sort_key)
  then have "sorted_wrt (\<lambda>x y. key x \<le> key y) (sort_key key (rev xs))"
    by (simp add: sorted_wrt_map)
  then show ?thesis
    by (simp add: sorted_reverse_def sorted_wrt_rev)
qed

lemma sorted_reverse_stable:
  "filter (\<lambda>y. key y = k) (sorted_reverse key xs) = filter (\<lambda>y. key y = k) xs"
proof -
  have "filter (\<lambda>y. key y = k) (sorted_reverse key xs)
      = rev (filter (\<lambda>y. key y = k) (sort_key key (rev xs)))"
    by (simp only: sorted_reverse_def rev_filter)
  also have "\<dots> = rev (filter (\<lambda>y. key y = k) (rev xs))"
    by (simp only: sort_key_stable)
  also have "\<dots> = filter (\<lambda>y. key y = k) xs"
    by (simp only: rev_filter rev_rev_ident)
  finally show ?thesis .
qed

lemma set_sorted_reverse: "set (sorted_reverse key xs) = set xs"
  by (simp add: sorted_reverse_def)

lemma length_sorted_reverse: "length (sorted_reverse key xs) = length xs"
  by (simp add: sorted_reverse_def)

lemma set_map_filter: "y \<in> set (List.map_filter f xs) \<longleftrightarrow> (\<exists>x \<in> set xs. f x = Some y)"
  by (induction xs) (auto simp: List.map_filter_simps split: option.splits)

lemma spec_overlap_entry_Some:
  "spec_overlap_entry h low = Some e \<longleftrightarrow>
     (\<exists>l. bounds low = Some l \<and> spec_overlaps h l \<and>
          e = \<lparr> ov_file = filename low, ov_region = region low, ov_area = spec_overlap_area h l,
                ov_lat_range = spec_overlap_lat h l, ov_lon_range = spec_overlap_lon h l \<rparr>)"
proof (cases "bounds low")
  case None
  then show ?thesis by (simp add: spec_overlap_entry_def)
next
  case (Some l)
  then show ?thesis by (cases "spec_overlaps h l") (auto simp: spec_overlap_entry_def)
qed

lemma in_low_loop:
  "e \<in> set (low_loop h lows []) \<longleftrightarrow>
     (\<exists>low l. low \<in> set lows \<and> bounds low = Some l \<and> spec_overlaps h l \<and>
          e = \<lparr> ov_file = filename low, ov_region = region low, ov_area = spec_overlap_area h l,
                ov_lat_range = spec_overlap_lat h l, ov_lon_range = spec_overlap_lon h l \<rparr>)"
  unfolding low_loop_char append_Nil set_map_filter spec_overlap_entry_Some by blast

lemma in_high_file_report:
  "p \<in> set (reported_pairs (case high_file_report hf lows of None \<Rightarrow> [] | Some r \<Rightarrow> [r])) \<longleftrightarrow>
     (\<exists>low h l. low \<in> set lows \<and> bounds hf = Some h \<and> bounds low = Some l \<and> spec_overlaps h l \<and>
        p = ((filename hf, region hf), (filename low, region low),
             spec_overlap_area h l, spec_overlap_lat h l, spec_overlap_lon h l))"
proof (cases "bounds hf")
  case None
  then show ?thesis by (simp add: high_file_report_def reported_pairs_def)
next
  case (Some h)
  have "p \<in> set (reported_pairs (case high_file_report hf lows of None \<Rightarrow> [] | Some r \<Rightarrow> [r])) \<longleftrightarrow>
      (\<exists>e \<in> set (low_loop h lows []).
         p = ((filename hf, region hf), (ov_file e, ov_region e), ov_area e, ov_lat_range e, ov_lon_range e))"
    by (cases "low_loop h lows [] = []")
       (auto simp: high_file_report_def reported_pairs_def Some set_sorted_reverse)
  also have "\<dots> \<longleftrightarrow> (\<exists>low l. low \<in> set lows \<and> bounds low = Some l \<and> spec_overlaps h l \<and>
        p = ((filename hf, region hf), (filename low, region low),
             spec_overlap_area h l, spec_overlap_lat h l, spec_overlap_lon h l))"
    (is "?L \<longleftrightarrow> ?R")
  proof
    assume ?L
    then obtain e where e: "e \<in> set (low_loop h lows [])"
      and p: "p = ((filename hf, region hf), (ov_file e, ov_region e), ov_area e, ov_lat_range e, ov_lon_range e)"
      by blast
    from e obtain low l where m: "low \<in> set lows" "bounds low = Some l" "spec_overlaps h l"
      and e': "e = \<lparr> ov_file = filename low, ov_region = region low, ov_area = spec_overlap_area h l,
                ov_lat_range = spec_overlap_lat h l, ov_lon_range = spec_overlap_lon h l \<rparr>"
      unfolding in_low_loop by blast
    have "p = ((filename hf, region hf), (filename low, region low),
             spec_overlap_area h l, spec_overlap_lat h l, spec_overlap_lon h l)"
      by (simp add: p e')
    with m show ?R by blast
  next
    assume ?R
    then obtain low l where m: "low \<in> set lows" "bounds low = Some l" "spec_overlaps h l"
      and p: "p = ((filename hf, region hf), (filename low, region low),
             spec_overlap_area h l, spec_overlap_lat h l, spec_overlap_lon h l)"
      by blast
    let ?e = "\<lparr> ov_file = filename low, ov_region = region low, ov_area = spec_overlap_area h l,
                ov_lat_range = spec_overlap_lat h l, ov_lon_range = spec_overlap_lon h l \<rparr>"
    have "?e \<in> set (low_loop h lows [])"
      unfolding in_low_loop using m by blast
    moreover have "p = ((filename hf, region hf), (ov_file ?e, ov_region ?e), ov_area ?e, ov_lat_range ?e, ov_lon_range ?e)"
      by (simp add: p)
    ultimately show ?L by blast
  qed
  finally show ?thesis by (simp add: Some)
qed

lemma in_compare_files:
  "p \<in> set (reported_pairs (compare_files highs lows)) \<longleftrightarrow>
     (\<exists>hf low h l. hf \<in> set highs \<and> low \<in> set lows \<and> bounds hf = Some h \<and> bounds low = Some l
        \<and> spec_overlaps h l \<and>
        p = ((filename hf, region hf), (filename low, region low),
             spec_overlap_area h l, spec_overlap_lat h l, spec_overlap_lon h l))"
proof (induction highs)
  case Nil
  show ?case by (simp add: reported_pairs_def)
next
  case (Cons hf highs)
  have split: "reported_pairs (compare_files (hf # highs) lows) =
      reported_pairs (case high_file_report hf lows of None \<Rightarrow> [] | Some r \<Rightarrow> [r])
      @ reported_pairs (compare_files highs lows)"
    by (simp add: reported_pairs_def split: option.splits)
  show ?case
    unfolding split set_append Un_iff Cons.IH in_high_file_report set_simps insert_iff
    by (rule iffI; elim disjE exE conjE; blast)
qed

lemma spec_overlaps_sym: "spec_overlaps h l = spec_overlaps l h"
  by (cases h; cases l) auto

lemma spec_overlap_lat_sym: "spec_overlap_lat h l = spec_overlap_lat l h"
  by (cases h; cases l) (simp add: max.commute min.commute)

lemma spec_overlap_lon_sym: "spec_overlap_lon h l = spec_overlap_lon l h"
  by (cases h; cases l) (simp add: max.commute min.commute)

lemma spec_overlap_area_sym: "spec_overlap_area h l = spec_overlap_area l h"
  by (simp add: spec_overlap_area_def spec_overlap_lat_sym [of h l] spec_overlap_lon_sym [of h l])

section \<open>Overlaps: the claims\<close>

text \<open>
  Claim C3. For a high-resolution rectangle \<open>h\<close> the list \<^verbatim>\<open>overlaps\<close> built by the loop
  holds, in the order of the low-resolution files, one entry for exactly those files
  that have all four bounds and pass the closed-interval test
  high.lat_min \<le> low.lat_max, high.lat_max \<ge> low.lat_min, high.lon_min \<le> low.lon_max,
  high.lon_max \<ge> low.lon_min. The entry records the rectangle
  [max(lat_min), min(lat_max)] x [max(lon_min), min(lon_max)] and the product of its edge
  lengths as area. When both input rectangles satisfy lat_min \<le> lat_max and
  lon_min \<le> lon_max every recorded area is \<ge> 0, and a pair that meets in latitude and
  shares the boundary high.lon_min = low.lon_max is reported with area 0.
\<close>

theorem C3_overlap_test_and_rectangle:
  "low_loop h lows [] = List.map_filter (spec_overlap_entry h) lows
   \<and> (bounds low = Some l \<longrightarrow>
        low_loop h [low] [] =
          (if spec_overlaps h l
           then [\<lparr> ov_file = filename low, ov_region = region low,
                    ov_area = (snd (spec_overlap_lat h l) - fst (spec_overlap_lat h l))
                              * (snd (spec_overlap_lon h l) - fst (spec_overlap_lon h l)),
                    ov_lat_range = spec_overlap_lat h l,
                    ov_lon_range = spec_overlap_lon h l \<rparr>]
           else []))
   \<and> (valid_rect h \<and> list_all valid_file lows \<longrightarrow>
        list_all (\<lambda>e. 0 \<le> ov_area e) (low_loop h lows []))
   \<and> (valid_rect (high_lat_min, high_lat_max, high_lon_min, high_lon_max)
        \<and> bounds low = Some (low_lat_min, low_lat_max, low_lon_min, low_lon_max)
        \<and> valid_rect (low_lat_min, low_lat_max, low_lon_min, low_lon_max)
        \<and> high_lat_min \<le> low_lat_max \<and> high_lat_max \<ge> low_lat_min
        \<and> high_lon_min = low_lon_max \<longrightarrow>
        map (\<lambda>e. (ov_file e, ov_area e, ov_lon_range e))
          (low_loop (high_lat_min, high_lat_max, high_lon_min, high_lon_max) [low] [])
        = [(filename low, 0, (high_lon_min, high_lon_min))])"
proof (intro conjI impI)
  show "low_loop h lows [] = List.map_filter (spec_overlap_entry h) lows"
    by (simp add: low_loop_char)
next
  assume "bounds low = Some l"
  then show "low_loop h [low] [] =
          (if spec_overlaps h l
           then [\<lparr> ov_file = filename low, ov_region = region low,
                    ov_area = (snd (spec_overlap_lat h l) - fst (spec_overlap_lat h l))
                              * (snd (spec_overlap_lon h l) - fst (spec_overlap_lon h l)),
                    ov_lat_range = spec_overlap_lat h l,
                    ov_lon_range = spec_overlap_lon h l \<rparr>]
           else [])"
    by (simp add: low_loop_char List.map_filter_simps spec_overlap_entry_def spec_overlap_area_def)
next
  assume "valid_rect h \<and> list_all valid_file lows"
  then show "list_all (\<lambda>e. 0 \<le> ov_area e) (low_loop h lows [])"
    by (simp add: low_loop_char map_filter_area_nonneg)
next
  assume "valid_rect (high_lat_min, high_lat_max, high_lon_min, high_lon_max)
        \<and> bounds low = Some (low_lat_min, low_lat_max, low_lon_min, low_lon_max)
        \<and> valid_rect (low_lat_min, low_lat_max, low_lon_min, low_lon_max)
        \<and> high_lat_min \<le> low_lat_max \<and> high_lat_max \<ge> low_lat_min
        \<and> high_lon_min = low_lon_max"
  then show "map (\<lambda>e. (ov_file e, ov_area e, ov_lon_range e))
          (low_loop (high_lat_min, high_lat_max, high_lon_min, high_lon_max) [low] [])
        = [(filename low, 0, (high_lon_min, high_lon_min))]"
    by (simp add: low_loop_char List.map_filter_simps spec_overlap_entry_def spec_overlap_area_def)
qed

theorem C3_overlap_test_and_rectangle_witness:
  "bounds \<lparr> filename = ''megt44n000gb.lbl'', lat_min = Some 0, lat_max = Some 44,
            lon_min = Some 0, lon_max = Some 90, pixels_per_degree = Some 64,
            region = ''Mid-North'' \<rparr> = Some (0, 44, 0, 90)
   \<and> valid_rect (0, 44, 90, 180)
   \<and> list_all valid_file
        [\<lparr> filename = ''megt44n000gb.lbl'', lat_min = Some 0, lat_max = Some 44,
            lon_min = Some 0, lon_max = Some 90, pixels_per_degree = Some 64,
            region = ''Mid-North'' \<rparr>]
   \<and> valid_rect (0, 44, 0, 90)
   \<and> (0::real) \<le> 44 \<and> (44::real) \<ge> 0 \<and> (90::real) = 90
   \<and> low_loop (0, 44, 90, 180)
        [\<lparr> filename = ''megt44n000gb.lbl'', lat_min = Some 0, lat_max = Some 44,
            lon_min = Some 0, lon_max = Some 90, pixels_per_degree = Some 64,
            region = ''Mid-North'' \<rparr>] []
      = [\<lparr> ov_file = ''megt44n000gb.lbl'', ov_region = ''Mid-North'', ov_area = 0,
            ov_lat_range = (0, 44), ov_lon_range = (90, 90) \<rparr>]
   \<and> list_all (\<lambda>e. 0 \<le> ov_area e)
        (low_loop (0, 44, 90, 180)
          [\<lparr> filename = ''megt44n000gb.lbl'', lat_min = Some 0, lat_max = Some 44,
              lon_min = Some 0, lon_max = Some 90, pixels_per_degree = Some 64,
              region = ''Mid-North'' \<rparr>] [])
   \<and> map (\<lambda>e. (ov_file e, ov_area e, ov_lon_range e))
        (low_loop (0, 44, 90, 180)
          [\<lparr> filename = ''megt44n000gb.lbl'', lat_min = Some 0, lat_max = Some 44,
              lon_min = Some 0, lon_max = Some 90, pixels_per_degree = Some 64,
              region = ''Mid-North'' \<rparr>] [])
      = [(''megt44n000gb.lbl'', 0, (90, 90))]"
  using C3_overlap_test_and_rectangle
    [of "(0, 44, 90, 180)"
        "[\<lparr> filename = ''megt44n000gb.lbl'', lat_min = Some 0, lat_max = Some 44,
            lon_min = Some 0, lon_max = Some 90, pixels_per_degree = Some 64,
            region = ''Mid-North'' \<rparr>]"
        "\<lparr> filename = ''megt44n000gb.lbl'', lat_min = Some 0, lat_max = Some 44,
            lon_min = Some 0, lon_max = Some 90, pixels_per_degree = Some 64,
            region = ''Mid-North'' \<rparr>"
        "(0, 44, 0, 90)" 0 44 90 180 0 44 0 90]
  by (simp add: bounds_def valid_file_def List.map_filter_simps spec_overlap_entry_def
        spec_overlap_area_def)

text \<open>
  Claim C7. The overlaps printed for a high-resolution file are sorted by area, largest
  first, and entries of equal area stand in the order in which their low-resolution
  files stand in the low-resolution group. Three candidates with the areas 5, 20, 5 in
  that input order are printed as the second, then the first, then the third.
\<close>

theorem C7_overlaps_sorted_stable:
  assumes "high_file_report high_file lows = Some (name, rg, reported)"
  shows "(\<exists>h. bounds high_file = Some h
            \<and> sorted_wrt (\<lambda>x y. ov_area x \<ge> ov_area y) reported
            \<and> (\<forall>a. filter (\<lambda>e. ov_area e = a) reported
                   = filter (\<lambda>e. ov_area e = a) (List.map_filter (spec_overlap_entry h) lows)))
         \<and> map (\<lambda>e. (ov_file e, ov_area e))
             (sorted_reverse ov_area
               (low_loop (0, 10, 0, 10)
                  [l1\<lparr>lat_min := Some 0, lat_max := Some 1, lon_min := Some 0, lon_max := Some 5\<rparr>,
                   l2\<lparr>lat_min := Some 0, lat_max := Some 2, lon_min := Some 0, lon_max := Some 10\<rparr>,
                   l3\<lparr>lat_min := Some 0, lat_max := Some 5, lon_min := Some 0, lon_max := Some 1\<rparr>] []))
           = [(filename l2, 20), (filename l1, 5), (filename l3, 5)]"
proof -
  from assms obtain h where h: "bounds high_file = Some h"
    by (cases "bounds high_file") (auto simp: high_file_report_def)
  from assms h have reported: "reported = sorted_reverse ov_area (low_loop h lows [])"
    by (simp add: high_file_report_def Let_def split: if_splits)
  have desc: "sorted_wrt (\<lambda>x y. ov_area x \<ge> ov_area y) reported"
    unfolding reported by (rule sorted_reverse_desc)
  have stable: "filter (\<lambda>e. ov_area e = a) reported
      = filter (\<lambda>e. ov_area e = a) (List.map_filter (spec_overlap_entry h) lows)" for a
    unfolding reported by (simp add: sorted_reverse_stable low_loop_char)
  have example: "map (\<lambda>e. (ov_file e, ov_area e))
             (sorted_reverse ov_area
               (low_loop (0, 10, 0, 10)
                  [l1\<lparr>lat_min := Some 0, lat_max := Some 1, lon_min := Some 0, lon_max := Some 5\<rparr>,
                   l2\<lparr>lat_min := Some 0, lat_max := Some 2, lon_min := Some 0, lon_max := Some 10\<rparr>,
                   l3\<lparr>lat_min := Some 0, lat_max := Some 5, lon_min := Some 0, lon_max := Some 1\<rparr>] []))
           = [(filename l2, 20), (filename l1, 5), (filename l3, 5)]"
    by (simp add: bounds_def sorted_reverse_def)
  from h desc stable example show ?thesis by blast
qed

theorem C7_overlaps_sorted_stable_witness:
  "high_file_report
     \<lparr> filename = ''megt00n000hb.lbl'', lat_min = Some 0, lat_max = Some 10,
        lon_min = Some 0, lon_max = Some 10, pixels_per_degree = Some 128,
        region = ''Equatorial'' \<rparr>
     [\<lparr> filename = ''first.lbl'', lat_min = Some 0, lat_max = Some 1,
         lon_min = Some 0, lon_max = Some 5, pixels_per_degree = Some 64,
         region = ''Equatorial'' \<rparr>,
      \<lparr> filename = ''second.lbl'', lat_min = Some 0, lat_max = Some 2,
         lon_min = Some 0, lon_max = Some 10, pixels_per_degree = Some 64,
         region = ''Equatorial'' \<rparr>,
      \<lparr> filename = ''third.lbl'', lat_min = Some 0, lat_max = Some 5,
         lon_min = Some 0, lon_max = Some 1, pixels_per_degree = Some 64,
         region = ''Equatorial'' \<rparr>]
   = Some (''megt00n000hb.lbl'', ''Equatorial'',
       [\<lparr> ov_file = ''second.lbl'', ov_region = ''Equatorial'', ov_area = 20,
           ov_lat_range = (0, 2), ov_lon_range = (0, 10) \<rparr>,
        \<lparr> ov_file = ''first.lbl'', ov_region = ''Equatorial'', ov_area = 5,
           ov_lat_range = (0, 1), ov_lon_range = (0, 5) \<rparr>,
        \<lparr> ov_file = ''third.lbl'', ov_region = ''Equatorial'', ov_area = 5,
           ov_lat_range = (0, 5), ov_lon_range = (0, 1) \<rparr>])
   \<and> sorted_wrt (\<lambda>x y. ov_area x \<ge> ov_area y)
       [\<lparr> ov_file = ''second.lbl'', ov_region = ''Equatorial'', ov_area = 20,
           ov_lat_range = (0, 2), ov_lon_range = (0, 10) \<rparr>,
        \<lparr> ov_file = ''first.lbl'', ov_region = ''Equatorial'', ov_area = 5,
           ov_lat_range = (0, 1), ov_lon_range = (0, 5) \<rparr>,
        \<lparr> ov_file = ''third.lbl'', ov_region = ''Equatorial'', ov_area = 5,
           ov_lat_range = (0, 5), ov_lon_range = (0, 1) \<rparr>]"
proof -
  have report: "high_file_report
     \<lparr> filename = ''megt00n000hb.lbl'', lat_min = Some 0, lat_max = Some 10,
        lon_min = Some 0, lon_max = Some 10, pixels_per_degree = Some 128,
        region = ''Equatorial'' \<rparr>
     [\<lparr> filename = ''first.lbl'', lat_min = Some 0, lat_max = Some 1,
         lon_min = Some 0, lon_max = Some 5, pixels_per_degree = Some 64,
         region = ''Equatorial'' \<rparr>,
      \<lparr> filename = ''second.lbl'', lat_min = Some 0, lat_max = Some 2,
         lon_min = Some 0, lon_max = Some 10, pixels_per_degree = Some 64,
         region = ''Equatorial'' \<rparr>,
      \<lparr> filename = ''third.lbl'', lat_min = Some 0, lat_max = Some 5,
         lon_min = Some 0, lon_max = Some 1, pixels_per_degree = Some 64,
         region = ''Equatorial'' \<rparr>]
   = Some (''megt00n000hb.lbl'', ''Equatorial'',
       [\<lparr> ov_file = ''second.lbl'', ov_region = ''Equatorial'', ov_area = 20,
           ov_lat_range = (0, 2), ov_lon_range = (0, 10) \<rparr>,
        \<lparr> ov_file = ''first.lbl'', ov_region = ''Equatorial'', ov_area = 5,
           ov_lat_range = (0, 1), ov_lon_range = (0, 5) \<rparr>,
        \<lparr> ov_file = ''third.lbl'', ov_region = ''Equatorial'', ov_area = 5,
           ov_lat_range = (0, 5), ov_lon_range = (0, 1) \<rparr>])"
    by (simp add: high_file_report_def bounds_def sorted_reverse_def)
  from C7_overlaps_sorted_stable [OF report] report show ?thesis by blast
qed

text \<open>
  Claim C8. The pairs reported with A as the high-resolution group and B as the
  low-resolution group are the pairs reported with the groups exchanged, with the two
  files of every pair exchanged: the same files are paired, and every pair has the same
  overlap area and the same overlap rectangle in both directions. Files that lack a
  bound are paired in neither direction.
\<close>

theorem C8_overlap_symmetry:
  "set (reported_pairs (compare_files A B)) = swap_roles ` set (reported_pairs (compare_files B A))"
proof -
  have one: "p \<in> set (reported_pairs (compare_files X Y)) \<Longrightarrow>
      swap_roles p \<in> set (reported_pairs (compare_files Y X))" for p X Y
  proof -
    assume "p \<in> set (reported_pairs (compare_files X Y))"
    then obtain hf low h l where m: "hf \<in> set X" "low \<in> set Y" "bounds hf = Some h"
        "bounds low = Some l" "spec_overlaps h l"
      and p: "p = ((filename hf, region hf), (filename low, region low),
             spec_overlap_area h l, spec_overlap_lat h l, spec_overlap_lon h l)"
      unfolding in_compare_files by blast
    have "swap_roles p = ((filename low, region low), (filename hf, region hf),
             spec_overlap_area l h, spec_overlap_lat l h, spec_overlap_lon l h)"
      by (simp add: p swap_roles_def spec_overlap_area_sym [of h l] spec_overlap_lat_sym [of h l]
            spec_overlap_lon_sym [of h l])
    moreover have "spec_overlaps l h" using m(5) by (simp add: spec_overlaps_sym [of l h])
    ultimately show ?thesis
      unfolding in_compare_files using m by blast
  qed
  have invol: "swap_roles (swap_roles p) = p" for p :: "(string \<times> string) \<times> (string \<times> string) \<times> real \<times> (real \<times> real) \<times> (real \<times> real)"
    by (cases p) (simp add: swap_roles_def)
  show ?thesis
  proof (intro equalityI subsetI)
    fix p assume "p \<in> set (reported_pairs (compare_files A B))"
    then have "swap_roles p \<in> set (reported_pairs (compare_files B A))" by (rule one)
    then have "swap_roles (swap_roles p) \<in> swap_roles ` set (reported_pairs (compare_files B A))"
      by (rule imageI)
    then show "p \<in> swap_roles ` set (reported_pairs (compare_files B A))"
      by (simp add: invol)
  next
    fix p assume "p \<in> swap_roles ` set (reported_pairs (compare_files B A))"
    then obtain q where q: "q \<in> set (reported_pairs (compare_files B A))" and p: "p = swap_roles q"
      by blast
    from one [OF q] show "p \<in> set (reported_pairs (compare_files A B))"
      by (simp add: p)
  qed
qed

section \<open>Jezero coverage\<close>

lemma check_files_all:
  "fst (check_files path_exists label_files all_files_info covering) = all_files_info @ label_files"
  by (induction label_files arbitrary: all_files_info covering) auto

lemma check_files_covering:
  "map cf_label_file (snd (check_files path_exists label_files all_files_info covering)) =
     map cf_label_file covering @
     map label_file
       (filter (\<lambda>f. case (min_lat f, max_lat f, min_lon f, max_lon f) of
                       (Some mnlat, Some mxlat, Some mnlon, Some mxlon) \<Rightarrow>
                         mnlat \<le> 18.4446 \<and> 18.4446 \<le> mxlat \<and> mnlon \<le> 77.4509 \<and> 77.4509 \<le> mxlon
                     | _ \<Rightarrow> False) label_files)"
proof (induction label_files arbitrary: all_files_info covering)
  case Nil
  show ?case by simp
next
  case (Cons lbl rest)
  show ?case
    by (simp add: Cons.IH jezero_lat_def jezero_lon_def split: option.splits)
qed

text \<open>
  Claim C9. Every label file scanned appears in the list of all files. The files listed
  as covering Jezero Crater are, in scan order, exactly those whose four bounds are all
  numbers with min_lat \<le> 18.4446 \<le> max_lat and min_lon \<le> 77.4509 \<le> max_lon. A file
  with a bound that was not parsed is listed among all files and never as covering.
\<close>

theorem C9_jezero_coverage:
  "fst (check_coverage path_exists label_files) = label_files
   \<and> map cf_label_file (snd (check_coverage path_exists label_files))
       = map label_file
           (filter (\<lambda>f. case (min_lat f, max_lat f, min_lon f, max_lon f) of
                           (Some mnlat, Some mxlat, Some mnlon, Some mxlon) \<Rightarrow>
                             mnlat \<le> 18.4446 \<and> 18.4446 \<le> mxlat \<and> mnlon \<le> 77.4509 \<and> 77.4509 \<le> mxlon
                         | _ \<Rightarrow> False) label_files)
   \<and> ((min_lat f = None \<or> max_lat f = None \<or> min_lon f = None \<or> max_lon f = None) \<longrightarrow>
        check_coverage path_exists [f] = ([f], []))"
proof (intro conjI impI)
  show "fst (check_coverage path_exists label_files) = label_files"
    by (simp add: check_coverage_def check_files_all)
next
  show "map cf_label_file (snd (check_coverage path_exists label_files))
       = map label_file
           (filter (\<lambda>f. case (min_lat f, max_lat f, min_lon f, max_lon f) of
                           (Some mnlat, Some mxlat, Some mnlon, Some mxlon) \<Rightarrow>
                             mnlat \<le> 18.4446 \<and> 18.4446 \<le> mxlat \<and> mnlon \<le> 77.4509 \<and> 77.4509 \<le> mxlon
                         | _ \<Rightarrow> False) label_files)"
    by (simp add: check_coverage_def check_files_covering)
next
  assume "min_lat f = None \<or> max_lat f = None \<or> min_lon f = None \<or> max_lon f = None"
  then show "check_coverage path_exists [f] = ([f], [])"
    by (auto simp: check_coverage_def split: option.splits)
qed

theorem C9_jezero_coverage_witness:
  "max_lon \<lparr> label_file = ''assets/mars_data/megt44n090hb.lbl'', min_lat = Some 0,
             max_lat = Some 44, min_lon = Some 90, max_lon = None \<rparr> = None
   \<and> check_coverage (\<lambda>p. True)
       [\<lparr> label_file = ''assets/mars_data/megt44n090hb.lbl'', min_lat = Some 0,
           max_lat = Some 44, min_lon = Some 90, max_lon = None \<rparr>]
     = ([\<lparr> label_file = ''assets/mars_data/megt44n090hb.lbl'', min_lat = Some 0,
            max_lat = Some 44, min_lon = Some 90, max_lon = None \<rparr>], [])
   \<and> map cf_label_file (snd (check_coverage (\<lambda>p. True)
       [\<lparr> label_file = ''assets/mars_data/megt44n000hb.lbl'', min_lat = Some 0,
           max_lat = Some 44, min_lon = Some 0, max_lon = Some 90 \<rparr>,
        \<lparr> label_file = ''assets/mars_data/megt44n090hb.lbl'', min_lat = Some 0,
           max_lat = Some 44, min_lon = Some 90, max_lon = Some 180 \<rparr>]))
     = [''assets/mars_data/megt44n000hb.lbl'']"
proof -
  have none: "max_lon \<lparr> label_file = ''assets/mars_data/megt44n090hb.lbl'', min_lat = Some 0,
             max_lat = Some 44, min_lon = Some 90, max_lon = None \<rparr> = None"
    by simp
  have listed: "map cf_label_file (snd (check_coverage (\<lambda>p. True)
       [\<lparr> label_file = ''assets/mars_data/megt44n000hb.lbl'', min_lat = Some 0,
           max_lat = Some 44, min_lon = Some 0, max_lon = Some 90 \<rparr>,
        \<lparr> label_file = ''assets/mars_data/megt44n090hb.lbl'', min_lat = Some 0,
           max_lat = Some 44, min_lon = Some 90, max_lon = Some 180 \<rparr>]))
     = [''assets/mars_data/megt44n000hb.lbl'']"
    using C9_jezero_coverage
      [of "\<lambda>p. True"
          "[\<lparr> label_file = ''assets/mars_data/megt44n000hb.lbl'', min_lat = Some 0,
               max_lat = Some 44, min_lon = Some 0, max_lon = Some 90 \<rparr>,
            \<lparr> label_file = ''assets/mars_data/megt44n090hb.lbl'', min_lat = Some 0,
               max_lat = Some 44, min_lon = Some 90, max_lon = Some 180 \<rparr>]"]
    by simp
  from C9_jezero_coverage
      [of "\<lambda>p. True" "[]"
          "\<lparr> label_file = ''assets/mars_data/megt44n090hb.lbl'', min_lat = Some 0,
             max_lat = Some 44, min_lon = Some 90, max_lon = None \<rparr>"]
    none listed
  show ?thesis by blast
qed

section \<open>The whole run and the coverage sum\<close>

text \<open>
  Claim C1 says that no collection of parsed records makes the analysis raise, also when
  a resolution is absent. Two runs end in an exception and one completes. A record
  without \<^verbatim>\<open>pixels_per_degree\<close> is grouped under the key \<^verbatim>\<open>None pixels/degree\<close>, and the
  sort of the resolutions applies \<^verbatim>\<open>int\<close> to its first word: \<^verbatim>\<open>ValueError\<close>. A record of
  region \<^verbatim>\<open>Near-Polar South\<close> without \<^verbatim>\<open>lat_min\<close> reaches the comparison
  \<^verbatim>\<open>lat_min <= -75\<close> of the south polar test: \<^verbatim>\<open>TypeError\<close>. A record with all fields
  gives a report.
\<close>

theorem C1_missing_field_aborts:
  "run_analysis
     [\<lparr> filename = ''mola_tile.lbl'', lat_min = Some (- 44), lat_max = Some 44,
         lon_min = Some 90, lon_max = Some 180, pixels_per_degree = None,
         region = ''Unknown'' \<rparr>] = Inl ValueError
   \<and> run_analysis
     [\<lparr> filename = ''megt88s000hb.lbl'', lat_min = None, lat_max = Some (- 44),
         lon_min = Some 90, lon_max = Some 180, pixels_per_degree = Some 128,
         region = ''Near-Polar South'' \<rparr>] = Inl TypeError
   \<and> (\<exists>report. run_analysis
     [\<lparr> filename = ''megt44n090hb.lbl'', lat_min = Some 1, lat_max = Some 44,
         lon_min = Some 90, lon_max = Some 180, pixels_per_degree = Some 128,
         region = ''Mid-North'' \<rparr>] = Inr report)"
  by (simp add: run_analysis_def analyze_all_labels_def resolution_key_def print_summary_def
        resolution_int_def first_word_def py_int_def digit_val_def str_int_def str_nat.simps
        digit_char_def analyze_coverage_gaps_def analyze_resolution_overlaps_def)

text \<open>
  Claim C2 says that the total coverage of a region group is the sum over the records
  that have all four bounds. The record below has all four bounds, and its latitude
  band starts at 0.0 degrees: the truthiness test \<^verbatim>\<open>lat_max and lat_min\<close> takes 0.0 for a
  missing bound, so the total reported for the region is 0, where the sum of the claim
  is 44 * 90 = 3960 square degrees.
\<close>

theorem C2_zero_bound_not_counted:
  "map rs_total_coverage
     (summarize_regions region_groups
        [\<lparr> filename = ''megt44n090hb.lbl'', lat_min = Some 0, lat_max = Some 44,
            lon_min = Some 90, lon_max = Some 180, pixels_per_degree = Some 128,
            region = ''Mid-North'' \<rparr>]) = [0]
   \<and> bounds \<lparr> filename = ''megt44n090hb.lbl'', lat_min = Some 0, lat_max = Some 44,
            lon_min = Some 90, lon_max = Some 180, pixels_per_degree = Some 128,
            region = ''Mid-North'' \<rparr> = Some (0, 44, 90, 180)
   \<and> spec_total_coverage
        (region_files ''Mid-North''
          [\<lparr> filename = ''megt44n090hb.lbl'', lat_min = Some 0, lat_max = Some 44,
              lon_min = Some 90, lon_max = Some 180, pixels_per_degree = Some 128,
              region = ''Mid-North'' \<rparr>]) = 3960"
  by (simp add: region_groups_def region_files_def summarize_region_def coverage_def
        range_of_def truthy_def bounds_def spec_total_coverage_def)

end
